theory Spec2Isabelle
  imports Complex_Main
begin

section \<open>Conventions of the embedding\<close>

text \<open>
  The Python sources under \<open>backend/color_hustler\<close> are embedded function by function.
  Python ints are \<open>int\<close>, every exception the code can raise is a value of \<open>error\<close>, and
  an object that is mutated in place is passed in and returned. Python floats are IEEE 754
  binary64 values with round-to-nearest-even arithmetic (type \<open>float\<close> below) wherever a
  property depends on the rounding; the GoboSpinna profile, whose properties are
  insensitive to it, reads them as real numbers.
\<close>

datatype error =
  TypeError | ValueError | IndexError | ZeroDivisionError | KeyError | StopIteration
  | OverflowError

text \<open>Sequencing of fallible steps: the first exception aborts the rest.\<close>

definition ebind :: "error + 'a \<Rightarrow> ('a \<Rightarrow> error + 'b) \<Rightarrow> error + 'b" where
  "ebind m f = (case m of Inl e \<Rightarrow> Inl e | Inr x \<Rightarrow> f x)"

text \<open>Python's \<open>xs[i]\<close>: a negative index counts from the end, anything else out of
  range raises IndexError.\<close>

definition py_index :: "'a list \<Rightarrow> int \<Rightarrow> error + nat" where
  "py_index xs i =
     (let n = int (length xs); j = (if i < 0 then n + i else i)
      in if 0 \<le> j \<and> j < n then Inr (nat j) else Inl IndexError)"

definition py_getitem :: "'a list \<Rightarrow> int \<Rightarrow> error + 'a" where
  "py_getitem xs i = ebind (py_index xs i) (\<lambda>j. Inr (xs ! j))"

definition py_setitem :: "'a list \<Rightarrow> int \<Rightarrow> 'a \<Rightarrow> error + 'a list" where
  "py_setitem xs i v = ebind (py_index xs i) (\<lambda>j. Inr (xs[j := v]))"

section \<open>color.py: ColorSwarm\<close>

text \<open>
  The swarm's private \<open>Random\<close> object is the sequence of raw draws it will deliver
  together with the number of draws already consumed. \<open>randint a b\<close> raises ValueError on
  an empty range, as \<open>random.randint\<close> does.
\<close>

type_synonym rng = "(nat \<Rightarrow> nat) \<times> nat"

definition randint :: "rng \<Rightarrow> int \<Rightarrow> int \<Rightarrow> (error + int) \<times> rng" where
  "randint r a b =
     (if b < a then (Inl ValueError, r)
      else (Inr (a + int (fst r (snd r)) mod (b - a + 1)), (fst r, Suc (snd r))))"

record 'g ColorSwarm =
  random_mode :: bool
  rand_gen :: rng
  gens :: "'g list"
  next_idx :: int

text \<open>\<open>ColorSwarm.__init__\<close>. The argument \<open>mt\<close> is the generator family of the standard
  library: the raw draws as a function of the optional seed. No step of the constructor
  inspects \<open>col_gens\<close>.\<close>

definition ColorSwarm_init ::
  "(int option \<Rightarrow> nat \<Rightarrow> nat) \<Rightarrow> 'g list \<Rightarrow> bool \<Rightarrow> int option \<Rightarrow> error + 'g ColorSwarm" where
  "ColorSwarm_init mt col_gens rnd seed =
     Inr \<lparr>random_mode = rnd, rand_gen = (mt seed, 0), gens = col_gens, next_idx = 0\<rparr>"

text \<open>\<open>ColorSwarm.get\<close>. The generators are duck-typed: \<open>gen_get\<close> is their \<open>get\<close> method,
  returning a colour and the advanced generator, or raising. The result pairs the
  outcome with the swarm as the call leaves it (an exception keeps the mutations made
  before it).\<close>

definition ColorSwarm_get ::
  "('g \<Rightarrow> error + 'c \<times> 'g) \<Rightarrow> 'g ColorSwarm \<Rightarrow> (error + 'c) \<times> 'g ColorSwarm" where
  "ColorSwarm_get gen_get sw =
     (if random_mode sw then
        (case randint (rand_gen sw) 0 (int (length (gens sw)) - 1) of
           (Inl e, r) \<Rightarrow> (Inl e, sw\<lparr>rand_gen := r\<rparr>)
         | (Inr gen, r) \<Rightarrow>
             (let sw1 = sw\<lparr>rand_gen := r\<rparr> in
              case py_index (gens sw1) gen of
                Inl e \<Rightarrow> (Inl e, sw1)
              | Inr j \<Rightarrow>
                  (case gen_get (gens sw1 ! j) of
                     Inl e \<Rightarrow> (Inl e, sw1)
                   | Inr (col, g) \<Rightarrow> (Inr col, sw1\<lparr>gens := (gens sw1)[j := g]\<rparr>))))
      else if length (gens sw) = 0 then (Inl ZeroDivisionError, sw)
      else
        (let sw1 = sw\<lparr>next_idx := (next_idx sw + 1) mod int (length (gens sw))\<rparr> in
         case py_index (gens sw1) (next_idx sw1) of
           Inl e \<Rightarrow> (Inl e, sw1)
         | Inr j \<Rightarrow>
             (case gen_get (gens sw1 ! j) of
                Inl e \<Rightarrow> (Inl e, sw1)
              | Inr (col, g) \<Rightarrow> (Inr col, sw1\<lparr>gens := (gens sw1)[j := g]\<rparr>))))"

section \<open>Python floats: IEEE 754 binary64\<close>

text \<open>
  A float is a finite binary64 number, an infinity or a NaN. \<open>Finite x\<close> carries the real
  number denoted. The sign of a zero is not recorded: \<open>-0.0\<close> and \<open>0.0\<close> compare equal and
  no function embedded here tells them apart.
\<close>

datatype float = Finite real | PosInf | NegInf | NaN

text \<open>Rounding a real to the nearest integer, ties to the even one.\<close>

definition round_half_even :: "real \<Rightarrow> int" where
  "round_half_even x =
     (if x - of_int \<lfloor>x\<rfloor> < 1 / 2 then \<lfloor>x\<rfloor>
      else if 1 / 2 < x - of_int \<lfloor>x\<rfloor> then \<lfloor>x\<rfloor> + 1
      else if even \<lfloor>x\<rfloor> then \<lfloor>x\<rfloor> else \<lfloor>x\<rfloor> + 1)"

text \<open>The binade of a magnitude: the exponent \<open>e\<close> with \<open>2^e \<le> a < 2^(e+1)\<close>, searched
  upwards from \<open>-1022\<close> (subnormal numbers share the exponent \<open>-1022\<close>) and stopping at
  \<open>1024\<close>, beyond the largest finite exponent.\<close>

fun find_exp :: "nat \<Rightarrow> int \<Rightarrow> real \<Rightarrow> int" where
  "find_exp 0 e a = e"
| "find_exp (Suc n) e a = (if a < 2 powi (e + 1) then e else find_exp n (e + 1) a)"

definition binade :: "real \<Rightarrow> int" where
  "binade a = find_exp 2046 (- 1022) a"

text \<open>The unit in the last place at \<open>x\<close> (53 significant bits), and rounding to binary64:
  round to a multiple of the unit, and overflow to an infinity when the rounded
  magnitude reaches \<open>2^1024\<close>.\<close>

definition ulp :: "real \<Rightarrow> real" where
  "ulp x = 2 powi (binade \<bar>x\<bar> - 52)"

definition overflow_threshold :: real where
  "overflow_threshold = 2 powi 1024"

definition round64 :: "real \<Rightarrow> float" where
  "round64 x =
     (let r = of_int (round_half_even (x / ulp x)) * ulp x
      in if overflow_threshold \<le> \<bar>r\<bar> then (if 0 < x then PosInf else NegInf) else Finite r)"

fun fneg :: "float \<Rightarrow> float" where
  "fneg (Finite x) = Finite (- x)"
| "fneg PosInf = NegInf"
| "fneg NegInf = PosInf"
| "fneg NaN = NaN"

fun fabs :: "float \<Rightarrow> float" where
  "fabs (Finite x) = Finite \<bar>x\<bar>"
| "fabs PosInf = PosInf"
| "fabs NegInf = PosInf"
| "fabs NaN = NaN"

fun fadd :: "float \<Rightarrow> float \<Rightarrow> float" where
  "fadd (Finite x) (Finite y) = round64 (x + y)"
| "fadd NaN b = NaN"
| "fadd a NaN = NaN"
| "fadd PosInf NegInf = NaN"
| "fadd NegInf PosInf = NaN"
| "fadd PosInf b = PosInf"
| "fadd NegInf b = NegInf"
| "fadd a b = b"

definition fsub :: "float \<Rightarrow> float \<Rightarrow> float" where
  "fsub a b = fadd a (fneg b)"

fun fmul :: "float \<Rightarrow> float \<Rightarrow> float" where
  "fmul (Finite x) (Finite y) = round64 (x * y)"
| "fmul NaN b = NaN"
| "fmul a NaN = NaN"
| "fmul (Finite x) b = (if x = 0 then NaN else if 0 < x then b else fneg b)"
| "fmul a (Finite y) = (if y = 0 then NaN else if 0 < y then a else fneg a)"
| "fmul a b = (if a = b then PosInf else NegInf)"

text \<open>The comparison \<open>a < b\<close>; every comparison with a NaN is false.\<close>

fun flt :: "float \<Rightarrow> float \<Rightarrow> bool" where
  "flt (Finite x) (Finite y) = (x < y)"
| "flt NaN b = False"
| "flt a NaN = False"
| "flt NegInf b = (b \<noteq> NegInf)"
| "flt a PosInf = (a \<noteq> PosInf)"
| "flt a b = False"

text \<open>The comparison \<open>a == b\<close>; a NaN equals nothing, itself included.\<close>

fun feq :: "float \<Rightarrow> float \<Rightarrow> bool" where
  "feq (Finite x) (Finite y) = (x = y)"
| "feq PosInf PosInf = True"
| "feq NegInf NegInf = True"
| "feq a b = False"

text \<open>Python's \<open>a / b\<close> on floats: a zero divisor raises, the rest is the IEEE quotient.\<close>

fun fdiv :: "float \<Rightarrow> float \<Rightarrow> error + float" where
  "fdiv (Finite x) (Finite y) = (if y = 0 then Inl ZeroDivisionError else Inr (round64 (x / y)))"
| "fdiv NaN (Finite y) = (if y = 0 then Inl ZeroDivisionError else Inr NaN)"
| "fdiv PosInf (Finite y) =
     (if y = 0 then Inl ZeroDivisionError else Inr (if 0 < y then PosInf else NegInf))"
| "fdiv NegInf (Finite y) =
     (if y = 0 then Inl ZeroDivisionError else Inr (if 0 < y then NegInf else PosInf))"
| "fdiv a NaN = Inr NaN"
| "fdiv (Finite x) b = Inr (Finite 0)"
| "fdiv a b = Inr NaN"

text \<open>Python's \<open>int(x)\<close> on a float truncates towards zero; a NaN raises ValueError and an
  infinity OverflowError.\<close>

fun int_of_float :: "float \<Rightarrow> error + int" where
  "int_of_float (Finite x) = Inr (if 0 \<le> x then \<lfloor>x\<rfloor> else \<lceil>x\<rceil>)"
| "int_of_float NaN = Inl ValueError"
| "int_of_float a = Inl OverflowError"

text \<open>The conversion of an int operand in mixed arithmetic: the nearest float, and
  OverflowError when the int is beyond the float range.\<close>

definition float_of_int :: "int \<Rightarrow> error + float" where
  "float_of_int i =
     (case round64 (of_int i) of Finite x \<Rightarrow> Inr (Finite x) | _ \<Rightarrow> Inl OverflowError)"

text \<open>Python's \<open>a % b\<close> on floats: the C \<open>fmod\<close> (exact, with the sign of \<open>a\<close>), moved by
  \<open>b\<close> when its sign differs from the sign of \<open>b\<close>; that addition rounds.\<close>

fun py_fmod :: "float \<Rightarrow> float \<Rightarrow> error + float" where
  "py_fmod (Finite x) (Finite y) =
     (if y = 0 then Inl ZeroDivisionError
      else (let q = x / y;
                m = x - y * of_int (if 0 \<le> q then \<lfloor>q\<rfloor> else \<lceil>q\<rceil>)
            in if m \<noteq> 0 \<and> ((y < 0) \<noteq> (m < 0)) then Inr (round64 (m + y)) else Inr (Finite m)))"
| "py_fmod NaN (Finite y) = (if y = 0 then Inl ZeroDivisionError else Inr NaN)"
| "py_fmod PosInf (Finite y) = (if y = 0 then Inl ZeroDivisionError else Inr NaN)"
| "py_fmod NegInf (Finite y) = (if y = 0 then Inl ZeroDivisionError else Inr NaN)"
| "py_fmod (Finite x) PosInf = Inr (if x < 0 then PosInf else Finite x)"
| "py_fmod (Finite x) NegInf = Inr (if 0 < x then NegInf else Finite x)"
| "py_fmod a b = Inr NaN"

text \<open>The builtins \<open>min\<close> and \<open>max\<close> keep the first argument unless a later one is strictly
  smaller (\<open>min\<close>) or strictly larger (\<open>max\<close>).\<close>

definition py_min :: "float \<Rightarrow> float \<Rightarrow> float" where
  "py_min a b = (if flt b a then b else a)"

definition py_max :: "float \<Rightarrow> float \<Rightarrow> float" where
  "py_max a b = (if flt a b then b else a)"

section \<open>gobo_hustler.py: Easer\<close>

record Easer =
  target :: float
  current :: float

definition Easer_init :: "float \<Rightarrow> Easer" where
  "Easer_init initial_value = \<lparr>target = initial_value, current = initial_value\<rparr>"

text \<open>\<open>Easer.ease\<close>, with the float operations in the order the source performs them:
  \<open>abs(dv) > dv_max\<close> is \<open>dv_max < abs(dv)\<close>, \<open>dv > 0.0\<close> is \<open>0.0 < dv\<close>.\<close>

definition ease :: "Easer \<Rightarrow> float \<Rightarrow> float \<Rightarrow> float \<times> Easer" where
  "ease e dt easing =
     (let dv = fsub (target e) (current e);
          dv_max = fmul dt easing;
          actual_dv = (if flt dv_max (fabs dv)
                       then (if flt (Finite 0) dv then dv_max else fmul (Finite (- 1)) dv_max)
                       else dv);
          cur = fadd (current e) actual_dv
      in (cur, e\<lparr>current := cur\<rparr>))"

section \<open>gobo_rotator.py: take_closest\<close>

text \<open>
  The list may hold ints or floats. The two operations the code applies to its elements,
  \<open><\<close> and \<open>-\<close>, are those of the element type and are passed in: \<open>(<)\<close> and \<open>(-)\<close> on \<open>int\<close>
  for Python ints (exact), \<open>flt\<close> and \<open>fsub\<close> for floats (rounded).

  \<open>bisect.bisect_left\<close> of the standard library, as its reference implementation runs
  it: the binary search loop on the window \<open>[lo, hi)\<close>.
\<close>

function bisect_left :: "('a \<Rightarrow> 'a \<Rightarrow> bool) \<Rightarrow> 'a list \<Rightarrow> 'a \<Rightarrow> nat \<Rightarrow> nat \<Rightarrow> nat" where
  "bisect_left lt a x lo hi =
     (if lo < hi then
        (let mid = (lo + hi) div 2
         in if lt (a ! mid) x then bisect_left lt a x (mid + 1) hi
            else bisect_left lt a x lo mid)
      else lo)"
  by pat_completeness auto
termination
  by (relation "measure (\<lambda>(lt, a, x, lo, hi). hi - lo)") auto

declare bisect_left.simps [simp del]

definition take_closest ::
  "('a \<Rightarrow> 'a \<Rightarrow> bool) \<Rightarrow> ('a \<Rightarrow> 'a \<Rightarrow> 'a) \<Rightarrow> 'a list \<Rightarrow> 'a \<Rightarrow> error + 'a" where
  "take_closest lt sub myList myNumber =
     (let pos = bisect_left lt myList myNumber 0 (length myList) in
      if pos = 0 then py_getitem myList 0
      else if pos = length myList then py_getitem myList (- 1)
      else
        ebind (py_getitem myList (int pos - 1)) (\<lambda>before.
        ebind (py_getitem myList (int pos)) (\<lambda>after.
          if lt (sub after myNumber) (sub myNumber before) then Inr after else Inr before)))"

section \<open>gobo_hustler.py: pattern banks\<close>

text \<open>\<open>itertools.cycle\<close> over a list: the saved elements and the position of the next
  one to yield. \<open>py_next\<close> is Python's \<open>next()\<close> on it; on an empty saved list the iterator
  is exhausted at once and raises StopIteration.\<close>

record 'a cycle =
  saved :: "'a list"
  pos :: nat

definition cycle :: "'a list \<Rightarrow> 'a cycle" where
  "cycle xs = \<lparr>saved = xs, pos = 0\<rparr>"

definition py_next :: "'a cycle \<Rightarrow> error + 'a \<times> 'a cycle" where
  "py_next c =
     (if saved c = [] then Inl StopIteration
      else Inr (saved c ! pos c, c\<lparr>pos := Suc (pos c) mod length (saved c)\<rparr>))"

text \<open>The first \<open>k\<close> values an iterator yields, or the exception that ends it earlier.\<close>

fun take_next :: "nat \<Rightarrow> 'a cycle \<Rightarrow> error + 'a list" where
  "take_next 0 c = Inr []"
| "take_next (Suc k) c =
     (case py_next c of
        Inl e \<Rightarrow> Inl e
      | Inr (x, c') \<Rightarrow> (case take_next k c' of Inl e \<Rightarrow> Inl e | Inr xs \<Rightarrow> Inr (x # xs)))"

definition GoboHustler_ALL :: string where "GoboHustler_ALL = ''all''"
definition GoboHustler_SINGLE :: string where "GoboHustler_SINGLE = ''single''"
definition GoboHustler_TWO_VALUE :: string where "GoboHustler_TWO_VALUE = ''two_value''"

definition create_banks :: "int \<Rightarrow> string \<rightharpoonup> int list cycle" where
  "create_banks n =
     (let indices = [0..n - 1];
          every = cycle [indices];
          singles = cycle (map (\<lambda>i. [i]) [0..n - 1]);
          evens = filter (\<lambda>i. i mod 2 = 0) indices;
          odds = filter (\<lambda>i. i mod 2 = 1) indices;
          two_values = cycle [evens, odds]
      in [GoboHustler_ALL \<mapsto> every, GoboHustler_SINGLE \<mapsto> singles, GoboHustler_TWO_VALUE \<mapsto> two_values])"

section \<open>gobo_rotator.py: GoboSpinna\<close>

text \<open>Modelled from the spec: \<open>param_gen.clamp\<close>, which \<open>gobo_rotator.py\<close> imports, is not
  among the sources. The spec only says that out-of-range values are clamped to the
  range; the model is the clamp of \<open>color.py\<close>, a value forced between \<open>min_val\<close> and
  \<open>max_val\<close>.\<close>

definition param_gen_clamp :: "real \<Rightarrow> real \<Rightarrow> real \<Rightarrow> real" where
  "param_gen_clamp val min_val max_val = min (max min_val val) max_val"

text \<open>Python's \<open>int()\<close> on a float truncates towards zero.\<close>

definition py_int :: "real \<Rightarrow> int" where
  "py_int v = (if 0 \<le> v then \<lfloor>v\<rfloor> else \<lceil>v\<rceil>)"

record GoboSpinna =
  address :: int
  g0 :: real
  g1 :: real

definition GoboSpinna_init :: "int \<Rightarrow> GoboSpinna" where
  "GoboSpinna_init addr = \<lparr>address = addr, g0 = 0, g1 = 0\<rparr>"

definition render_single :: "real \<Rightarrow> int \<times> int" where
  "render_single v =
     (let direction = (if v \<le> 0 then 0 else 255);
          speed = py_int (param_gen_clamp (\<bar>v\<bar> * 255) 0 255)
      in (direction, speed))"

text \<open>\<open>GoboSpinna.render\<close>: four item assignments in order. The result is the exception
  raised, if any, and the buffer as the call leaves it: an assignment that raises keeps
  the writes made before it.\<close>

definition GoboSpinna_render :: "GoboSpinna \<Rightarrow> int list \<Rightarrow> error option \<times> int list" where
  "GoboSpinna_render self buf =
     (case render_single (g0 self) of (d0, s0) \<Rightarrow>
     (case render_single (g1 self) of (d1, s1) \<Rightarrow>
     (case py_setitem buf (address self) d0 of Inl e \<Rightarrow> (Some e, buf) | Inr buf1 \<Rightarrow>
     (case py_setitem buf1 (address self + 1) s0 of Inl e \<Rightarrow> (Some e, buf1) | Inr buf2 \<Rightarrow>
     (case py_setitem buf2 (address self + 2) d1 of Inl e \<Rightarrow> (Some e, buf2) | Inr buf3 \<Rightarrow>
     (case py_setitem buf3 (address self + 3) s1 of Inl e \<Rightarrow> (Some e, buf3) | Inr buf4 \<Rightarrow>
        (None, buf4)))))))"

section \<open>color.py: Color\<close>

text \<open>
  Coordinates are held in a Python sequence, a list or a tuple: \<open>hsv_to_rgb\<close> returns a
  tuple for a gray, and a tuple refuses item assignment. The coordinates themselves are
  floats.
\<close>

datatype pyseq = PyList "float list" | PyTuple "float list"

fun items :: "pyseq \<Rightarrow> float list" where
  "items (PyList xs) = xs"
| "items (PyTuple xs) = xs"

text \<open>The unpacking \<open>a, b, c = coordinates\<close>: any other number of items raises
  ValueError.\<close>

fun unpack3 :: "pyseq \<Rightarrow> error + float \<times> float \<times> float" where
  "unpack3 sq = (case items sq of [a, b, c] \<Rightarrow> Inr (a, b, c) | _ \<Rightarrow> Inl ValueError)"

text \<open>Item assignment \<open>sq[i] = v\<close>.\<close>

fun seq_setitem :: "pyseq \<Rightarrow> int \<Rightarrow> float \<Rightarrow> error + pyseq" where
  "seq_setitem (PyList xs) i v = ebind (py_setitem xs i v) (\<lambda>ys. Inr (PyList ys))"
| "seq_setitem (PyTuple xs) i v = Inl TypeError"

text \<open>The two functions imported from the \<open>husl\<close> package are not part of the
  repository; they are parameters of the embedding. Each takes three floats.\<close>

record husl_lib =
  rgb_to_husl_args :: "float \<Rightarrow> float \<Rightarrow> float \<Rightarrow> error + pyseq"
  husl_to_rgb_args :: "float \<Rightarrow> float \<Rightarrow> float \<Rightarrow> error + pyseq"

text \<open>\<open>rgb_to_husl\<close>: the call \<open>rgb_to_husl_args(*coordinates)\<close> raises TypeError unless
  there are three coordinates.\<close>

definition rgb_to_husl :: "husl_lib \<Rightarrow> pyseq \<Rightarrow> error + pyseq" where
  "rgb_to_husl lib coordinates =
     (case items coordinates of
        [r, g, b] \<Rightarrow>
          ebind (rgb_to_husl_args lib r g b) (\<lambda>res.
          ebind (unpack3 res) (\<lambda>(h, s, l).
          ebind (fdiv h (Finite 360)) (\<lambda>h'.
          ebind (fdiv s (Finite 100)) (\<lambda>s'.
          ebind (fdiv l (Finite 100)) (\<lambda>l'.
            Inr (PyList [h', s', l']))))))
      | _ \<Rightarrow> Inl TypeError)"

definition husl_to_rgb :: "husl_lib \<Rightarrow> pyseq \<Rightarrow> error + pyseq" where
  "husl_to_rgb lib coordinates =
     ebind (unpack3 coordinates) (\<lambda>(h, s, l).
       husl_to_rgb_args lib (fmul h (Finite 360)) (fmul s (Finite 100)) (fmul l (Finite 100)))"

definition hsv_to_rgb :: "pyseq \<Rightarrow> error + pyseq" where
  "hsv_to_rgb coordinates =
     ebind (unpack3 coordinates) (\<lambda>(hue, saturation, val).
       if feq saturation (Finite 0) then Inr (PyTuple [val, val, val])
       else
         (let hue6 = fmul hue (Finite 6);
              hue' = (if feq hue6 (Finite 6) then Finite 0 else hue6)
          in ebind (int_of_float hue') (\<lambda>sector.
               (let frac = fsub hue' (Finite (of_int sector));
                    v_1 = fmul val (fsub (Finite 1) saturation);
                    v_2 = fmul val (fsub (Finite 1) (fmul saturation frac));
                    v_3 = fmul val (fsub (Finite 1) (fmul saturation (fsub (Finite 1) frac)))
                in Inr (PyList
                     (if sector = 0 then [val, v_3, v_1]
                      else if sector = 1 then [v_2, val, v_1]
                      else if sector = 2 then [v_1, val, v_3]
                      else if sector = 3 then [v_1, v_2, val]
                      else if sector = 4 then [v_3, v_1, val]
                      else [val, v_1, v_2]))))))"

definition rgb_to_hsv :: "pyseq \<Rightarrow> error + pyseq" where
  "rgb_to_hsv coordinates =
     ebind (unpack3 coordinates) (\<lambda>(red, green, blue).
       (let min_val = py_min (py_min red green) blue;
            max_val = py_max (py_max red green) blue;
            delta = fsub max_val min_val;
            val = max_val
        in if feq delta (Finite 0) then Inr (PyList [Finite 0, Finite 0, val])
           else
             ebind (fdiv delta max_val) (\<lambda>saturation.
             ebind (fdiv (fsub max_val red) (Finite 6)) (\<lambda>r6.
             ebind (fdiv delta (Finite 2)) (\<lambda>half_r.
             ebind (fdiv (fadd r6 half_r) delta) (\<lambda>delta_r.
             ebind (fdiv (fsub max_val green) (Finite 6)) (\<lambda>g6.
             ebind (fdiv delta (Finite 2)) (\<lambda>half_g.
             ebind (fdiv (fadd g6 half_g) delta) (\<lambda>delta_g.
             ebind (fdiv (fsub max_val blue) (Finite 6)) (\<lambda>b6.
             ebind (fdiv delta (Finite 2)) (\<lambda>half_b.
             ebind (fdiv (fadd b6 half_b) delta) (\<lambda>delta_b.
             ebind (if feq red max_val then Inr (fsub delta_b delta_g)
                    else if feq green max_val then
                      ebind (fdiv (Finite 1) (Finite 3)) (\<lambda>third.
                        Inr (fsub (fadd third delta_r) delta_b))
                    else
                      ebind (fdiv (Finite 2) (Finite 3)) (\<lambda>two_thirds.
                        Inr (fsub (fadd two_thirds delta_g) delta_r))) (\<lambda>hue.
               (let hue' = (if flt hue (Finite 0) then fadd hue (Finite 1)
                            else if flt (Finite 1) hue then fsub hue (Finite 1)
                            else hue)
                in Inr (PyList [hue', saturation, val])))))))))))))))"

definition identity :: "pyseq \<Rightarrow> error + pyseq" where
  "identity coordinates = Inr coordinates"

definition space_to_rgb_map :: "husl_lib \<Rightarrow> string \<rightharpoonup> (pyseq \<Rightarrow> error + pyseq)" where
  "space_to_rgb_map lib =
     [''rgb'' \<mapsto> identity, ''hsv'' \<mapsto> hsv_to_rgb, ''husl'' \<mapsto> husl_to_rgb lib]"

definition rgb_to_space_map :: "husl_lib \<Rightarrow> string \<rightharpoonup> (pyseq \<Rightarrow> error + pyseq)" where
  "rgb_to_space_map lib =
     [''rgb'' \<mapsto> identity, ''hsv'' \<mapsto> rgb_to_hsv, ''husl'' \<mapsto> rgb_to_husl lib]"

text \<open>A dictionary lookup \<open>d[k]\<close> raises KeyError for a missing key.\<close>

definition dict_get :: "('k \<rightharpoonup> 'v) \<Rightarrow> 'k \<Rightarrow> error + 'v" where
  "dict_get d k = (case d k of None \<Rightarrow> Inl KeyError | Some v \<Rightarrow> Inr v)"

definition convert_color_space :: "husl_lib \<Rightarrow> string \<Rightarrow> string \<Rightarrow> pyseq \<Rightarrow> error + pyseq" where
  "convert_color_space lib source_space target_space coordinates =
     ebind (dict_get (space_to_rgb_map lib) source_space) (\<lambda>to_rgb.
     ebind (to_rgb coordinates) (\<lambda>rgb_representation.
     ebind (dict_get (rgb_to_space_map lib) target_space) (\<lambda>from_rgb.
       from_rgb rgb_representation)))"

definition clamp :: "float \<Rightarrow> float \<Rightarrow> float \<Rightarrow> float" where
  "clamp val min_val max_val = py_min (py_max min_val val) max_val"

record Color =
  space :: string
  coordinates :: pyseq

text \<open>\<open>Color.__init__\<close>: the comprehension builds a new list of the clamped items.\<close>

definition Color_init :: "string \<Rightarrow> pyseq \<Rightarrow> Color" where
  "Color_init color_space coords =
     \<lparr>space = color_space,
      coordinates = PyList (map (\<lambda>coord. clamp coord (Finite 0) (Finite 1)) (items coords))\<rparr>"

definition in_color_space :: "husl_lib \<Rightarrow> Color \<Rightarrow> string \<Rightarrow> error + Color" where
  "in_color_space lib self color_space =
     ebind (convert_color_space lib (space self) color_space (coordinates self)) (\<lambda>cs.
       Inr (Color_init color_space cs))"

definition in_rgb :: "husl_lib \<Rightarrow> Color \<Rightarrow> error + Color" where
  "in_rgb lib self = in_color_space lib self ''rgb''"

definition in_hsv :: "husl_lib \<Rightarrow> Color \<Rightarrow> error + Color" where
  "in_hsv lib self = in_color_space lib self ''hsv''"

definition in_husl :: "husl_lib \<Rightarrow> Color \<Rightarrow> error + Color" where
  "in_husl lib self = in_color_space lib self ''husl''"

text \<open>
  \<open>Color.__eq__\<close> with another Color: both sides are converted, and the two resulting
  Colors are compared with \<open>==\<close>, which is \<open>Color.__eq__\<close> again. The recursion has no
  base case; a call that does not return is the value \<open>None\<close> (CPython ends it with
  RecursionError once the interpreter stack is exhausted).
\<close>

partial_function (option) Color_eq :: "husl_lib \<Rightarrow> Color \<Rightarrow> Color \<Rightarrow> (error + bool) option" where
  "Color_eq lib self other =
     (case in_rgb lib self of
        Inl e \<Rightarrow> Some (Inl e)
      | Inr a \<Rightarrow>
          (case in_rgb lib other of
             Inl e \<Rightarrow> Some (Inl e)
           | Inr b \<Rightarrow> Color_eq lib a b))"

definition get_coordinate :: "husl_lib \<Rightarrow> Color \<Rightarrow> string \<Rightarrow> int \<Rightarrow> error + float" where
  "get_coordinate lib self color_space coordinate_index =
     ebind (convert_color_space lib (space self) color_space (coordinates self)) (\<lambda>shifted.
       py_getitem (items shifted) coordinate_index)"

text \<open>\<open>Color.set_coordinate\<close>: only the incoming value is clamped; what the conversion
  back returns is stored as it is.\<close>

definition set_coordinate :: "husl_lib \<Rightarrow> Color \<Rightarrow> string \<Rightarrow> int \<Rightarrow> float \<Rightarrow> error + Color" where
  "set_coordinate lib self color_space coordinate_index v =
     (let v' = clamp v (Finite 0) (Finite 1) in
      ebind (convert_color_space lib (space self) color_space (coordinates self)) (\<lambda>shifted.
      ebind (seq_setitem shifted coordinate_index v') (\<lambda>shifted'.
      ebind (convert_color_space lib color_space (space self) shifted') (\<lambda>cs.
        Inr (self\<lparr>coordinates := cs\<rparr>)))))"

definition hue_hsv :: "husl_lib \<Rightarrow> Color \<Rightarrow> error + float" where
  "hue_hsv lib self = get_coordinate lib self ''hsv'' 0"

definition hue_hsv_setter :: "husl_lib \<Rightarrow> Color \<Rightarrow> float \<Rightarrow> error + Color" where
  "hue_hsv_setter lib self v = set_coordinate lib self ''hsv'' 0 v"

text \<open>\<open>repack_c0\<close>, \<open>repack_c1\<close>, \<open>repack_c2\<close>: plain item assignments into the
  coordinates.\<close>

definition repack_c0 :: "Color \<Rightarrow> float \<Rightarrow> error + Color" where
  "repack_c0 color c0 =
     ebind (seq_setitem (coordinates color) 0 c0) (\<lambda>cs. Inr (color\<lparr>coordinates := cs\<rparr>))"

definition repack_c1 :: "Color \<Rightarrow> float \<Rightarrow> error + Color" where
  "repack_c1 color c1 =
     ebind (seq_setitem (coordinates color) 1 c1) (\<lambda>cs. Inr (color\<lparr>coordinates := cs\<rparr>))"

definition repack_c2 :: "Color \<Rightarrow> float \<Rightarrow> error + Color" where
  "repack_c2 color c2 =
     ebind (seq_setitem (coordinates color) 2 c2) (\<lambda>cs. Inr (color\<lparr>coordinates := cs\<rparr>))"

text \<open>\<open>add_hue_hsv\<close>: the hue is read through the getter, moved, reduced with \<open>% 1.0\<close> and
  written through the setter.\<close>

definition add_hue_hsv :: "husl_lib \<Rightarrow> Color \<Rightarrow> float \<Rightarrow> error + Color" where
  "add_hue_hsv lib color v =
     ebind (in_hsv lib color) (\<lambda>col_hsv.
     ebind (hue_hsv lib col_hsv) (\<lambda>h.
     ebind (py_fmod (fadd h v) (Finite 1)) (\<lambda>h'.
       hue_hsv_setter lib col_hsv h')))"

text \<open>A coordinate inside the unit interval: a finite float between 0 and 1.\<close>

definition unit_float :: "float \<Rightarrow> bool" where
  "unit_float f = (case f of Finite x \<Rightarrow> 0 \<le> x \<and> x \<le> 1 | _ \<Rightarrow> False)"

section \<open>Properties\<close>

subsection \<open>Python indexing inside the range\<close>

lemma py_index_in_range:
  "0 \<le> i \<Longrightarrow> i < int (length xs) \<Longrightarrow> py_index xs i = Inr (nat i)"
  by (simp add: py_index_def)

lemma py_getitem_in_range:
  "0 \<le> i \<Longrightarrow> i < int (length xs) \<Longrightarrow> py_getitem xs i = Inr (xs ! nat i)"
  by (simp add: py_getitem_def py_index_in_range ebind_def)

lemma py_getitem_last:
  "xs \<noteq> [] \<Longrightarrow> py_getitem xs (- 1) = Inr (last xs)"
  by (cases xs rule: rev_cases) (auto simp add: py_getitem_def py_index_def ebind_def Let_def nth_append)

lemma py_setitem_in_range:
  "0 \<le> i \<Longrightarrow> i < int (length xs) \<Longrightarrow> py_setitem xs i v = Inr (xs[nat i := v])"
  by (simp add: py_setitem_def py_index_in_range ebind_def)

subsection \<open>Rounding to binary64\<close>

text \<open>The binade search finds the exponent, so rounding can be evaluated once the
  binade of the argument is known.\<close>

lemma find_exp_eq:
  "e0 \<le> e \<Longrightarrow> nat (e - e0) \<le> n \<Longrightarrow> (e0 < e \<longrightarrow> 2 powi e \<le> a) \<Longrightarrow> a < 2 powi (e + 1) \<Longrightarrow>
   find_exp n e0 a = e"
proof (induction n arbitrary: e0)
  case 0
  then show ?case by simp
next
  case (Suc n)
  show ?case
  proof (cases "a < 2 powi (e0 + 1)")
    case True
    have "e0 = e"
    proof (rule ccontr)
      assume "e0 \<noteq> e"
      then have lt: "e0 < e" using Suc.prems(1) by simp
      then have "(2::real) powi (e0 + 1) \<le> 2 powi e"
        by (intro power_int_increasing) simp_all
      then show False using True Suc.prems(3) lt by simp
    qed
    then show ?thesis using True by simp
  next
    case False
    then have ne: "e0 \<noteq> e" using Suc.prems(4) by auto
    then have "find_exp n (e0 + 1) a = e"
      using Suc.prems False by (intro Suc.IH) auto
    then show ?thesis using False by simp
  qed
qed

lemma binade_eq:
  "- 1022 \<le> e \<Longrightarrow> e \<le> 1023 \<Longrightarrow> (- 1022 < e \<longrightarrow> 2 powi e \<le> a) \<Longrightarrow> a < 2 powi (e + 1) \<Longrightarrow>
   binade a = e"
  unfolding binade_def by (rule find_exp_eq) simp_all

lemma round_half_even_of_int [simp]: "round_half_even (of_int m) = m"
  by (simp add: round_half_even_def)

lemma round_half_even_minus: "round_half_even (- x) = - round_half_even x"
proof (cases "x = of_int \<lfloor>x\<rfloor>")
  case True
  then obtain m where "x = of_int m" ..
  then have "- x = of_int (- m)" by simp
  then show ?thesis using \<open>x = of_int m\<close> by (metis round_half_even_of_int)
next
  case False
  have fl: "\<lfloor>- x\<rfloor> = - \<lfloor>x\<rfloor> - 1"
    using False by (metis ceiling_altdef ceiling_def diff_minus_eq_add minus_diff_eq
        add_diff_cancel_left' minus_minus minus_add_cancel uminus_add_conv_diff)
  define d where "d = x - of_int \<lfloor>x\<rfloor>"
  have d: "0 < d" "d < 1" using False by (auto simp: d_def) linarith+
  have d': "- x - of_int (- \<lfloor>x\<rfloor> - 1) = 1 - d" by (simp add: d_def)
  define f where "f = \<lfloor>x\<rfloor>"
  have a: "round_half_even x =
     (if d < 1 / 2 then f else if 1 / 2 < d then f + 1 else if even f then f else f + 1)"
    by (simp add: round_half_even_def d_def f_def)
  have b: "round_half_even (- x) =
     (if 1 - d < 1 / 2 then - f - 1 else if 1 / 2 < 1 - d then - f - 1 + 1
      else if even (- f - 1) then - f - 1 else - f - 1 + 1)"
    unfolding round_half_even_def fl d' f_def ..
  consider "d < 1 / 2" | "1 / 2 < d" | "d = 1 / 2" by linarith
  then show ?thesis
  proof cases
    case 1
    then show ?thesis by (simp add: a b)
  next
    case 2
    then show ?thesis by (simp add: a b)
  next
    case 3
    then show ?thesis by (simp add: a b)
  qed
qed

lemma ulp_eq:
  "- 1022 \<le> e \<Longrightarrow> e \<le> 1023 \<Longrightarrow> (- 1022 < e \<longrightarrow> 2 powi e \<le> \<bar>x\<bar>) \<Longrightarrow> \<bar>x\<bar> < 2 powi (e + 1) \<Longrightarrow>
   ulp x = 2 powi (e - 52)"
  by (simp add: ulp_def binade_eq)

lemma ulp_minus [simp]: "ulp (- x) = ulp x"
  by (simp add: ulp_def)

lemma ulp_pos: "0 < ulp x"
  by (simp add: ulp_def)

lemma round64_eval:
  assumes "- 1022 \<le> e" "e \<le> 1023" "- 1022 < e \<longrightarrow> 2 powi e \<le> \<bar>x\<bar>" "\<bar>x\<bar> < 2 powi (e + 1)"
  shows "round64 x =
     (if overflow_threshold \<le> \<bar>of_int (round_half_even (x * 2 powi (52 - e))) * 2 powi (e - 52) :: real\<bar>
      then (if 0 < x then PosInf else NegInf)
      else Finite (of_int (round_half_even (x * 2 powi (52 - e))) * 2 powi (e - 52)))"
proof -
  have u: "ulp x = 2 powi (e - 52)" using assms by (rule ulp_eq)
  have "x / 2 powi (e - 52) = x * 2 powi (52 - e)"
    by (simp add: power_int_diff field_simps)
  then show ?thesis by (simp add: round64_def u Let_def)
qed

lemma round64_exact:
  assumes "- 1022 \<le> e" "e \<le> 1023" "- 1022 < e \<longrightarrow> 2 powi e \<le> \<bar>x\<bar>" "\<bar>x\<bar> < 2 powi (e + 1)"
    and m: "x * 2 powi (52 - e) = of_int m"
  shows "round64 x = Finite x"
proof -
  have "of_int m * 2 powi (e - 52) = x * (2 powi (52 - e) * 2 powi (e - 52))"
    using m by (simp add: mult.assoc)
  also have "(2::real) powi (52 - e) * 2 powi (e - 52) = 1"
    by (simp add: power_int_add [symmetric])
  finally have bk: "of_int m * 2 powi (e - 52) = x" by simp
  have "(2::real) powi (e + 1) \<le> 2 powi 1024"
    using assms(2) by (intro power_int_increasing) simp_all
  then have "\<not> overflow_threshold \<le> \<bar>x\<bar>"
    using assms(4) unfolding overflow_threshold_def by linarith
  then show ?thesis
    by (simp add: round64_eval [OF assms(1-4)] m bk)
qed

lemma round64_0 [simp]: "round64 0 = Finite 0"
  using round64_exact [of "- 1022" 0 0] by simp

lemma round64_minus: "round64 (- x) = fneg (round64 x)"
proof (cases "x = 0")
  case True
  then show ?thesis by simp
next
  case False
  then show ?thesis
    by (auto simp: round64_def Let_def round_half_even_minus)
qed

text \<open>Rounding of a number whose binade and nearest multiple of the unit are known;
  with \<open>e \<le> 1022\<close> the result cannot overflow.\<close>

lemma round64_to:
  assumes "- 1022 \<le> e" "e \<le> 1022" "- 1022 < e \<longrightarrow> 2 powi e \<le> \<bar>x\<bar>" "\<bar>x\<bar> < 2 powi (e + 1)"
    and m: "round_half_even (x * 2 powi (52 - e)) = m" and bound: "\<bar>m\<bar> \<le> 2 ^ 53"
  shows "round64 x = Finite (of_int m * 2 powi (e - 52))"
proof -
  have e: "e \<le> 1023" using assms(2) by simp
  have "\<bar>of_int m * 2 powi (e - 52) :: real\<bar> = of_int \<bar>m\<bar> * 2 powi (e - 52)"
    by (simp add: abs_mult)
  also have "\<dots> \<le> 2 ^ 53 * 2 powi (e - 52)"
  proof (rule mult_right_mono)
    have "(of_int \<bar>m\<bar> :: real) \<le> of_int (2 ^ 53)" using bound by (simp only: of_int_le_iff)
    then show "(of_int \<bar>m\<bar> :: real) \<le> 2 ^ 53" by simp
  qed simp
  also have "\<dots> = 2 powi (e + 1)"
  proof -
    have "e + 1 = 53 + (e - 52)" by simp
    then have "(2::real) powi (e + 1) = 2 powi (53 + (e - 52))" by (rule arg_cong)
    also have "\<dots> = 2 powi 53 * 2 powi (e - 52)" by (rule power_int_add) simp
    finally show ?thesis by simp
  qed
  also have "\<dots> \<le> 2 powi 1023" using assms(2) by (intro power_int_increasing) simp_all
  also have "\<dots> < 2 powi 1024" by (intro power_int_strict_increasing) simp_all
  finally have "\<not> overflow_threshold \<le> \<bar>of_int m * 2 powi (e - 52) :: real\<bar>"
    unfolding overflow_threshold_def by linarith
  then show ?thesis
    using round64_eval [OF assms(1) e assms(3,4)] m by simp
qed

lemma lit_1: "round64 1 = Finite 1"
  using round64_exact [of 0 1 4503599627370496] by simp

subsection \<open>Pattern banks\<close>

text \<open>A cycle over a non-empty list never raises StopIteration, and yields only saved
  elements.\<close>

lemma take_next_total:
  "saved c \<noteq> [] \<Longrightarrow> pos c < length (saved c) \<Longrightarrow>
   \<exists>ys. take_next k c = Inr ys \<and> length ys = k \<and> set ys \<subseteq> set (saved c)"
proof (induction k arbitrary: c)
  case 0
  then show ?case by simp
next
  case (Suc k)
  define c' where "c' = c\<lparr>pos := Suc (pos c) mod length (saved c)\<rparr>"
  have n: "py_next c = Inr (saved c ! pos c, c')"
    using Suc.prems by (simp add: py_next_def c'_def)
  have "saved c' \<noteq> []" "pos c' < length (saved c')"
    using Suc.prems by (simp_all add: c'_def)
  from Suc.IH [OF this] obtain ys where ys: "take_next k c' = Inr ys" "length ys = k"
    "set ys \<subseteq> set (saved c')" by blast
  have "take_next (Suc k) c = Inr (saved c ! pos c # ys)"
    by (simp add: n ys(1))
  moreover have "saved c ! pos c \<in> set (saved c)" using Suc.prems by simp
  moreover have "saved c' = saved c" by (simp add: c'_def)
  ultimately show ?case using ys by auto
qed

lemma banks_names: "GoboHustler_ALL \<noteq> GoboHustler_SINGLE" "GoboHustler_ALL \<noteq> GoboHustler_TWO_VALUE" "GoboHustler_SINGLE \<noteq> GoboHustler_TWO_VALUE"
  by (simp_all add: GoboHustler_ALL_def GoboHustler_SINGLE_def GoboHustler_TWO_VALUE_def)

lemma create_banks_lookup:
  "create_banks n GoboHustler_ALL = Some (cycle [[0..n - 1]])"
  "create_banks n GoboHustler_SINGLE = Some (cycle (map (\<lambda>i. [i]) [0..n - 1]))"
  "create_banks n GoboHustler_TWO_VALUE =
     Some (cycle [filter (\<lambda>i. i mod 2 = 0) [0..n - 1], filter (\<lambda>i. i mod 2 = 1) [0..n - 1]])"
  using banks_names by (simp_all add: create_banks_def Let_def)

text \<open>
  Claim C2, amended: for every channel count \<open>n \<ge> 1\<close> and each of the banks \<open>all\<close>,
  \<open>single\<close>, \<open>two_value\<close> built by \<open>create_banks(n)\<close>, iterating the bank never ends (any
  number \<open>k\<close> of values can be drawn), and every subset drawn is non-empty provided
  \<open>n \<ge> 2\<close> or the bank is not \<open>two_value\<close>.
\<close>

theorem create_banks_subsets:
  assumes n: "1 \<le> n" and b: "b \<in> {GoboHustler_ALL, GoboHustler_SINGLE, GoboHustler_TWO_VALUE}"
  shows "\<exists>c. create_banks n b = Some c
           \<and> (\<forall>k. \<exists>ys. take_next k c = Inr ys \<and> length ys = k
                   \<and> (2 \<le> n \<or> b \<noteq> GoboHustler_TWO_VALUE \<longrightarrow> [] \<notin> set ys))"
proof -
  have idx: "[0..n - 1] \<noteq> []" using n by (simp add: upto.simps)
  have ev: "filter (\<lambda>i. i mod 2 = 0) [0..n - 1] \<noteq> []"
  proof -
    have "(0::int) \<in> set [0..n - 1]" using n by simp
    then have "(0::int) \<in> set (filter (\<lambda>i. i mod 2 = 0) [0..n - 1])" by simp
    then show ?thesis by (metis empty_iff empty_set)
  qed
  have od: "2 \<le> n \<Longrightarrow> filter (\<lambda>i. i mod 2 = 1) [0..n - 1] \<noteq> []"
  proof -
    assume "2 \<le> n"
    then have "(1::int) \<in> set [0..n - 1]" by simp
    then have "(1::int) \<in> set (filter (\<lambda>i. i mod 2 = 1) [0..n - 1])" by simp
    then show ?thesis by (metis empty_iff empty_set)
  qed
  consider "b = GoboHustler_ALL" | "b = GoboHustler_SINGLE" | "b = GoboHustler_TWO_VALUE" using b by blast
  then show ?thesis
  proof cases
    case 1
    have "\<forall>k. \<exists>ys. take_next k (cycle [[0..n - 1]]) = Inr ys \<and> length ys = k \<and> [] \<notin> set ys"
    proof
      fix k
      obtain ys where "take_next k (cycle [[0..n - 1]]) = Inr ys" "length ys = k"
        "set ys \<subseteq> set (saved (cycle [[0..n - 1]]))"
        using take_next_total [of "cycle [[0..n - 1]]" k] by (auto simp: cycle_def)
      then show "\<exists>ys. take_next k (cycle [[0..n - 1]]) = Inr ys \<and> length ys = k \<and> [] \<notin> set ys"
        using idx by (auto simp: cycle_def)
    qed
    then show ?thesis using 1 by (simp add: create_banks_lookup) blast
  next
    case 2
    let ?c = "cycle (map (\<lambda>i. [i]) [0..n - 1])"
    have "\<forall>k. \<exists>ys. take_next k ?c = Inr ys \<and> length ys = k \<and> [] \<notin> set ys"
    proof
      fix k
      obtain ys where "take_next k ?c = Inr ys" "length ys = k"
        "set ys \<subseteq> set (saved ?c)"
        using take_next_total [of ?c k] idx by (auto simp: cycle_def)
      then show "\<exists>ys. take_next k ?c = Inr ys \<and> length ys = k \<and> [] \<notin> set ys"
        by (auto simp: cycle_def)
    qed
    then show ?thesis using 2 by (simp add: create_banks_lookup) blast
  next
    case 3
    let ?c = "cycle [filter (\<lambda>i. i mod 2 = 0) [0..n - 1], filter (\<lambda>i. i mod 2 = 1) [0..n - 1]]"
    have "\<forall>k. \<exists>ys. take_next k ?c = Inr ys \<and> length ys = k \<and> (2 \<le> n \<longrightarrow> [] \<notin> set ys)"
    proof
      fix k
      obtain ys where "take_next k ?c = Inr ys" "length ys = k"
        "set ys \<subseteq> set (saved ?c)"
        using take_next_total [of ?c k] by (auto simp: cycle_def)
      then show "\<exists>ys. take_next k ?c = Inr ys \<and> length ys = k \<and> (2 \<le> n \<longrightarrow> [] \<notin> set ys)"
        using ev od by (auto simp: cycle_def)
    qed
    then show ?thesis using 3 by (simp add: create_banks_lookup)
  qed
qed

theorem create_banks_subsets_witness:
  "(1::int) \<le> 4 \<and> GoboHustler_TWO_VALUE \<in> {GoboHustler_ALL, GoboHustler_SINGLE, GoboHustler_TWO_VALUE}
   \<and> create_banks 4 GoboHustler_TWO_VALUE = Some \<lparr>saved = [[0, 2], [1, 3]], pos = 0\<rparr>
   \<and> take_next 3 \<lparr>saved = [[0, 2], [1, 3 :: int]], pos = 0\<rparr> = Inr [[0, 2], [1, 3], [0, 2]]"
  using create_banks_subsets [of 4 GoboHustler_TWO_VALUE]
  by (simp add: create_banks_lookup cycle_def upto.simps py_next_def eval_nat_numeral)

text \<open>
  The claim as first stated (C2: every subset is non-empty for every \<open>n \<ge> 1\<close>) fails
  for one channel: the odd group of \<open>two_value\<close> is empty, and it is the second value
  the bank yields.
\<close>

theorem create_banks_one_channel_counterexample:
  "create_banks 1 GoboHustler_TWO_VALUE = Some \<lparr>saved = [[0], []], pos = 0\<rparr>
   \<and> take_next 2 \<lparr>saved = [[0], [] :: int list], pos = 0\<rparr> = Inr [[0], []]"
  by (simp add: create_banks_lookup cycle_def upto.simps py_next_def eval_nat_numeral)

subsection \<open>ColorSwarm\<close>

text \<open>
  Claim C3, amended: whatever the random flag and the seed, constructing a ColorSwarm
  from the empty list succeeds and yields a swarm with no generators and cursor 0; the
  empty list is rejected only by the first \<open>get()\<close>, which raises (ValueError from
  \<open>randint(0, -1)\<close> in random mode, ZeroDivisionError from the modulo in round-robin
  mode) and leaves the swarm as it was.
\<close>

theorem ColorSwarm_init_accepts_empty:
  "ColorSwarm_init mt [] rnd seed
     = Inr \<lparr>random_mode = rnd, rand_gen = (mt seed, 0), gens = [], next_idx = 0\<rparr>
   \<and> ColorSwarm_get gen_get
         \<lparr>random_mode = rnd, rand_gen = (mt seed, 0), gens = [], next_idx = 0\<rparr>
     = (Inl (if rnd then ValueError else ZeroDivisionError),
        \<lparr>random_mode = rnd, rand_gen = (mt seed, 0), gens = [], next_idx = 0\<rparr>)"
  by (simp add: ColorSwarm_init_def ColorSwarm_get_def randint_def)

text \<open>
  The claim as first stated (C3: constructing a ColorSwarm from the empty generator
  list raises) fails: the constructor stores the list without looking at it, so it returns a swarm: here the
  empty list, round-robin mode, no seed.
\<close>

theorem ColorSwarm_init_empty_counterexample:
  "ColorSwarm_init (\<lambda>s k. 0) ([] :: unit list) False None
     = Inr \<lparr>random_mode = False, rand_gen = ((\<lambda>k. 0), 0), gens = [], next_idx = 0\<rparr>"
  by (simp add: ColorSwarm_init_def)

text \<open>
  Claim C6: in round-robin mode with a non-empty generator list, \<open>get()\<close> first moves the
  cursor to \<open>(cursor + 1) mod count\<close> for the current count, whatever the cursor was
  (so also after the list grew or shrank); that index is inside the list, so the
  indexing does not raise; the generator at that index is the one called; and on a
  freshly constructed swarm the index used is \<open>1 mod count\<close>.
\<close>

theorem ColorSwarm_get_round_robin:
  fixes sw :: "'g ColorSwarm"
  assumes "\<not> random_mode sw" and "gens sw \<noteq> []"
  defines "i \<equiv> (next_idx sw + 1) mod int (length (gens sw))"
  shows "0 \<le> i \<and> i < int (length (gens sw))
       \<and> py_getitem (gens sw) i = Inr (gens sw ! nat i)
       \<and> ColorSwarm_get gen_get sw =
           (case gen_get (gens sw ! nat i) of
              Inl e \<Rightarrow> (Inl e, sw\<lparr>next_idx := i\<rparr>)
            | Inr (col, g) \<Rightarrow> (Inr col, sw\<lparr>next_idx := i, gens := (gens sw)[nat i := g]\<rparr>))
       \<and> (\<exists>sw0. ColorSwarm_init mt (gens sw) False seed = Inr sw0
              \<and> next_idx (snd (ColorSwarm_get gen_get sw0)) = 1 mod int (length (gens sw)))"
proof -
  have len: "0 < int (length (gens sw))" using assms(2) by simp
  have r: "0 \<le> i" "i < int (length (gens sw))"
    using len by (simp_all add: i_def)
  have idx: "py_index (gens sw) i = Inr (nat i)"
    using r by (rule py_index_in_range)
  have g: "py_getitem (gens sw) i = Inr (gens sw ! nat i)"
    by (simp add: py_getitem_def idx ebind_def)
  have get: "ColorSwarm_get gen_get sw =
           (case gen_get (gens sw ! nat i) of
              Inl e \<Rightarrow> (Inl e, sw\<lparr>next_idx := i\<rparr>)
            | Inr (col, g) \<Rightarrow> (Inr col, sw\<lparr>next_idx := i, gens := (gens sw)[nat i := g]\<rparr>))"
    using assms(1,2) idx
    by (simp add: ColorSwarm_get_def Let_def i_def split: sum.splits prod.splits)
  define sw0 :: "'g ColorSwarm"
    where "sw0 = \<lparr>random_mode = False, rand_gen = (mt seed, 0), gens = gens sw, next_idx = 0\<rparr>"
  have one: "0 \<le> 1 mod int (length (gens sw))" "1 mod int (length (gens sw)) < int (length (gens sw))"
    using len by simp_all
  have idx0: "py_index (gens sw) (1 mod int (length (gens sw))) = Inr (nat (1 mod int (length (gens sw))))"
    using one by (rule py_index_in_range)
  have "next_idx (snd (ColorSwarm_get gen_get sw0)) = 1 mod int (length (gens sw))"
    using assms(2) idx0
    by (simp add: ColorSwarm_get_def sw0_def Let_def split: sum.splits prod.splits)
  then have first: "\<exists>sw0. ColorSwarm_init mt (gens sw) False seed = Inr sw0
              \<and> next_idx (snd (ColorSwarm_get gen_get sw0)) = 1 mod int (length (gens sw))"
    by (auto simp: ColorSwarm_init_def sw0_def)
  show ?thesis using r g get first by blast
qed

theorem ColorSwarm_get_round_robin_witness:
  "\<not> random_mode \<lparr>random_mode = False, rand_gen = ((\<lambda>k. 0), 0),
                    gens = [10, 20, 30 :: nat], next_idx = 2\<rparr>
   \<and> gens \<lparr>random_mode = False, rand_gen = ((\<lambda>k. 0), 0),
            gens = [10, 20, 30 :: nat], next_idx = 2\<rparr> \<noteq> []
   \<and> ColorSwarm_get (\<lambda>g. Inr (g, Suc g))
        \<lparr>random_mode = False, rand_gen = ((\<lambda>k. 0), 0), gens = [10, 20, 30 :: nat], next_idx = 2\<rparr>
      = (Inr 10, \<lparr>random_mode = False, rand_gen = ((\<lambda>k. 0), 0),
                  gens = [11, 20, 30], next_idx = 0\<rparr>)"
  using ColorSwarm_get_round_robin
    [of "\<lparr>random_mode = False, rand_gen = ((\<lambda>k. 0), 0), gens = [10, 20, 30 :: nat], next_idx = 2\<rparr>"
        "\<lambda>g. Inr (g, Suc g)"]
  by simp

subsection \<open>Easer\<close>



text \<open>The float literals and operations of the example below, rounded.\<close>

lemma lit_087: "round64 (87 / 100) = Finite (7836263351624663 / 2 ^ 53)"
  using round64_to [of "- 1" "87 / 100" 7836263351624663]
  by (simp add: round_half_even_def)

lemma lit_033: "round64 (33 / 100) = Finite (5944751508129055 / 2 ^ 54)"
  using round64_to [of "- 2" "33 / 100" 5944751508129055]
  by (simp add: round_half_even_def)


lemma sub_087_033:
  "fsub (Finite (7836263351624663 / 2 ^ 53)) (Finite (5944751508129055 / 2 ^ 54))
     = Finite (607985949695017 / 2 ^ 50)"
  using round64_to [of "- 1" "7836263351624663 / 2 ^ 53 - 5944751508129055 / 2 ^ 54" 4863887597560136]
  by (simp add: fsub_def round_half_even_def)

lemma add_033_054:
  "fadd (Finite (5944751508129055 / 2 ^ 54)) (Finite (607985949695017 / 2 ^ 50))
     = Finite (979532918953083 / 2 ^ 50)"
  using round64_to [of "- 1" "5944751508129055 / 2 ^ 54 + 607985949695017 / 2 ^ 50" 7836263351624664]
  by (simp add: round_half_even_def)

lemma mul_1_1: "fmul (Finite 1) (Finite 1) = Finite 1"
  by (simp add: lit_1)

lemma cmp_1_054: "\<not> flt (Finite 1) (fabs (Finite (607985949695017 / 2 ^ 50)))"
  by simp




subsection \<open>Color\<close>

text \<open>Clamping to the unit interval gives 0, 1, or the finite value itself when it lies
  inside; a NaN becomes 0.\<close>

lemma clamp_unit:
  "clamp v (Finite 0) (Finite 1) = Finite 0 \<or> clamp v (Finite 0) (Finite 1) = Finite 1
   \<or> (\<exists>x. v = Finite x \<and> 0 < x \<and> x \<le> 1 \<and> clamp v (Finite 0) (Finite 1) = v)"
  by (cases v) (auto simp: clamp_def py_min_def py_max_def)

text \<open>An RGB Color converts to an RGB Color without error.\<close>

lemma in_rgb_rgb:
  "space c = ''rgb'' \<Longrightarrow> \<exists>a. in_rgb lib c = Inr a \<and> space a = ''rgb''"
  by (simp add: in_rgb_def in_color_space_def convert_color_space_def space_to_rgb_map_def
      rgb_to_space_map_def dict_get_def identity_def ebind_def Color_init_def)

text \<open>Whenever the comparison returns at all, it returns an exception raised by one of
  the conversions, and the two Colors are not both RGB.\<close>

lemma Color_eq_no_boolean_aux:
  "Color_eq lib c d = Some r \<Longrightarrow> (\<exists>e. r = Inl e) \<and> \<not> (space c = ''rgb'' \<and> space d = ''rgb'')"
proof (induction lib c d r rule: Color_eq.raw_induct [rotated 1, consumes 1, case_names step])
  case (step eq lib c d r)
  note 1 = step
  show ?case
  proof (cases "in_rgb lib c")
    case (Inl e)
    then show ?thesis using 1(2) in_rgb_rgb [of c lib] by auto
  next
    case a: (Inr a)
    show ?thesis
    proof (cases "in_rgb lib d")
      case (Inl e)
      then show ?thesis using 1(2) a in_rgb_rgb [of d lib] by auto
    next
      case b: (Inr b)
      then have "eq lib a b = Some r" using 1(2) a by simp
      then have ih: "(\<exists>e. r = Inl e) \<and> \<not> (space a = ''rgb'' \<and> space b = ''rgb'')" by (rule 1(1))
      have "space a = ''rgb''" "space b = ''rgb''"
        using a b by (auto simp: in_rgb_def in_color_space_def ebind_def Color_init_def split: sum.splits)
      then show ?thesis using ih by simp
    qed
  qed
qed


text \<open>
  Claim C1 (the code departs from it): \<open>c == d\<close> on two Colors never yields a boolean.
  Whatever the two Colors and whatever the \<open>husl\<close> functions do, the comparison either
  raises in a conversion or recurses without end; on two black RGB Colors, which the
  claim says are equal, it recurses without end.
\<close>

theorem Color_eq_never_boolean:
  "Color_eq lib c d \<noteq> Some (Inr b)
   \<and> Color_eq lib (Color_init ''rgb'' (PyList [Finite 0, Finite 0, Finite 0]))
                    (Color_init ''rgb'' (PyList [Finite 0, Finite 0, Finite 0])) = None"
proof -
  have "Color_eq lib c d \<noteq> Some (Inr b)"
    using Color_eq_no_boolean_aux [of lib c d "Inr b"] by auto
  moreover have "Color_eq lib (Color_init ''rgb'' (PyList [Finite 0, Finite 0, Finite 0]))
                    (Color_init ''rgb'' (PyList [Finite 0, Finite 0, Finite 0])) = None"
  proof (cases "Color_eq lib (Color_init ''rgb'' (PyList [Finite 0, Finite 0, Finite 0]))
                    (Color_init ''rgb'' (PyList [Finite 0, Finite 0, Finite 0]))")
    case None
    then show ?thesis .
  next
    case (Some r)
    then show ?thesis
      using Color_eq_no_boolean_aux [OF Some] by (simp add: Color_init_def)
  qed
  ultimately show ?thesis ..
qed

text \<open>Clamping lands in the unit interval and is idempotent; a conversion from RGB to
  RGB hands the coordinates back.\<close>

lemma clamp_unit_float: "unit_float (clamp v (Finite 0) (Finite 1))"
  using clamp_unit [of v] by (auto simp: unit_float_def)

lemma clamp_idem: "clamp (clamp v (Finite 0) (Finite 1)) (Finite 0) (Finite 1) = clamp v (Finite 0) (Finite 1)"
  by (cases v) (auto simp: clamp_def py_min_def py_max_def)

lemma convert_rgb_rgb: "convert_color_space lib ''rgb'' ''rgb'' cs = Inr cs"
  by (simp add: convert_color_space_def space_to_rgb_map_def rgb_to_space_map_def dict_get_def
      identity_def ebind_def)




subsection \<open>take_closest\<close>

text \<open>On a sorted list the search loop returns the leftmost insertion point within
  its window.\<close>

lemma bisect_left_spec_aux:
  fixes a :: "int list"
  shows "lt = (<) \<Longrightarrow> sorted a \<Longrightarrow> lo \<le> hi \<Longrightarrow> hi \<le> length a \<Longrightarrow>
   (\<forall>i<lo. a ! i < x) \<Longrightarrow> (\<forall>i. hi \<le> i \<and> i < length a \<longrightarrow> x \<le> a ! i) \<Longrightarrow>
   lo \<le> bisect_left lt a x lo hi \<and> bisect_left lt a x lo hi \<le> hi
   \<and> (\<forall>i<bisect_left lt a x lo hi. a ! i < x)
   \<and> (\<forall>i. bisect_left lt a x lo hi \<le> i \<and> i < length a \<longrightarrow> x \<le> a ! i)"
proof (induction lt a x lo hi rule: bisect_left.induct)
  case (1 lt a x lo hi)
  note eq = "1.prems"(1) and srt = "1.prems"(2) and hl = "1.prems"(4)
    and below = "1.prems"(5) and above = "1.prems"(6)
  show ?case
  proof (cases "lo < hi")
    case False
    then have "bisect_left lt a x lo hi = lo" by (simp add: bisect_left.simps [of lt a x lo hi])
    with False "1.prems" show ?thesis by auto
  next
    case True
    define mid where "mid = (lo + hi) div 2"
    have mid: "lo \<le> mid" "mid < hi" using True by (simp_all add: mid_def)
    show ?thesis
    proof (cases "lt (a ! mid) x")
      case lt: True
      then have lt': "a ! mid < x" using eq by simp
      have low: "\<forall>i<mid + 1. a ! i < x"
      proof (intro allI impI)
        fix i assume "i < mid + 1"
        then have "a ! i \<le> a ! mid" using srt hl mid by (auto intro: sorted_nth_mono)
        then show "a ! i < x" using lt' by simp
      qed
      have "lo \<le> bisect_left lt a x (mid + 1) hi \<and> bisect_left lt a x (mid + 1) hi \<le> hi
   \<and> (\<forall>i<bisect_left lt a x (mid + 1) hi. a ! i < x)
   \<and> (\<forall>i. bisect_left lt a x (mid + 1) hi \<le> i \<and> i < length a \<longrightarrow> x \<le> a ! i)"
        using "1.IH"(1) [OF True mid_def lt eq srt _ hl low above] mid
        by auto
      moreover have "bisect_left lt a x lo hi = bisect_left lt a x (mid + 1) hi"
        using True lt by (simp add: bisect_left.simps [of lt a x lo hi] mid_def Let_def)
      ultimately show ?thesis by simp
    next
      case ge: False
      then have ge': "\<not> a ! mid < x" using eq by simp
      have high: "\<forall>i. mid \<le> i \<and> i < length a \<longrightarrow> x \<le> a ! i"
      proof (intro allI impI)
        fix i assume "mid \<le> i \<and> i < length a"
        then have "a ! mid \<le> a ! i" using srt by (auto intro: sorted_nth_mono)
        then show "x \<le> a ! i" using ge' by simp
      qed
      have "lo \<le> bisect_left lt a x lo mid \<and> bisect_left lt a x lo mid \<le> mid
   \<and> (\<forall>i<bisect_left lt a x lo mid. a ! i < x)
   \<and> (\<forall>i. bisect_left lt a x lo mid \<le> i \<and> i < length a \<longrightarrow> x \<le> a ! i)"
        using "1.IH"(2) [OF True mid_def ge eq srt _ _ below high] mid hl
        by auto
      moreover have "bisect_left lt a x lo hi = bisect_left lt a x lo mid"
        using True ge by (simp add: bisect_left.simps [of lt a x lo hi] mid_def Let_def)
      ultimately show ?thesis using mid by simp
    qed
  qed
qed

lemma bisect_left_spec:
  fixes a :: "int list"
  shows "sorted a \<Longrightarrow> lo \<le> hi \<Longrightarrow> hi \<le> length a \<Longrightarrow>
   (\<forall>i<lo. a ! i < x) \<Longrightarrow> (\<forall>i. hi \<le> i \<and> i < length a \<longrightarrow> x \<le> a ! i) \<Longrightarrow>
   lo \<le> bisect_left (<) a x lo hi \<and> bisect_left (<) a x lo hi \<le> hi
   \<and> (\<forall>i<bisect_left (<) a x lo hi. a ! i < x)
   \<and> (\<forall>i. bisect_left (<) a x lo hi \<le> i \<and> i < length a \<longrightarrow> x \<le> a ! i)"
  by (rule bisect_left_spec_aux) simp_all



text \<open>The float literals and operations of the example below, rounded.\<close>

lemma lit_001: "round64 (1 / 100) = Finite (5764607523034235 / 2 ^ 59)"
  using round64_to [of "- 7" "1 / 100" 5764607523034235]
  by (simp add: round_half_even_def)

lemma lit_027: "round64 (27 / 100) = Finite (607985949695017 / 2 ^ 51)"
  using round64_to [of "- 2" "27 / 100" 4863887597560136]
  by (simp add: round_half_even_def)

lemma lit_014: "round64 (14 / 100) = Finite (1261007895663739 / 2 ^ 53)"
  using round64_to [of "- 3" "14 / 100" 5044031582654956]
  by (simp add: round_half_even_def)

lemma sub_027_014:
  "fsub (Finite (607985949695017 / 2 ^ 51)) (Finite (1261007895663739 / 2 ^ 53))
     = Finite (1170935903116329 / 2 ^ 53)"
  using round64_to [of "- 3" "607985949695017 / 2 ^ 51 - 1261007895663739 / 2 ^ 53" 4683743612465316]
  by (simp add: fsub_def round_half_even_def)

lemma sub_014_001:
  "fsub (Finite (1261007895663739 / 2 ^ 53)) (Finite (5764607523034235 / 2 ^ 59))
     = Finite (1170935903116329 / 2 ^ 53)"
  using round64_to [of "- 3" "1261007895663739 / 2 ^ 53 - 5764607523034235 / 2 ^ 59" 4683743612465316]
  by (simp add: fsub_def round_half_even_def)

lemma bisect_001_027:
  "bisect_left flt [Finite (5764607523034235 / 2 ^ 59), Finite (607985949695017 / 2 ^ 51)]
     (Finite (1261007895663739 / 2 ^ 53)) 0 2 = 1"
  by (simp add: bisect_left.simps Let_def)



subsection \<open>GoboSpinna\<close>

text \<open>What one gobo contributes: a direction byte that is 0 or 255, 0 exactly for a
  value that is not positive, and a speed byte between 0 and 255.\<close>

lemma render_single_range:
  "fst (render_single v) = (if v \<le> 0 then 0 else 255)
   \<and> 0 \<le> snd (render_single v) \<and> snd (render_single v) \<le> 255"
proof -
  have "0 \<le> param_gen_clamp (\<bar>v\<bar> * 255) 0 255" "param_gen_clamp (\<bar>v\<bar> * 255) 0 255 \<le> 255"
    by (simp_all add: param_gen_clamp_def)
  then have "0 \<le> py_int (param_gen_clamp (\<bar>v\<bar> * 255) 0 255)"
       "py_int (param_gen_clamp (\<bar>v\<bar> * 255) 0 255) \<le> 255"
    by (simp_all add: py_int_def floor_le_iff)
  then show ?thesis by (simp add: render_single_def Let_def)
qed

text \<open>
  Claim C10, amended: for all values \<open>g0\<close> and \<open>g1\<close> and every buffer in which
  \<open>address, ..., address + 3\<close> are valid non-negative indexes, \<open>render\<close> raises nothing,
  writes exactly these four positions and leaves every other position and the length
  unchanged; each direction byte is 0 or 255 (0 exactly when the value is \<open>\<le> 0\<close>) and
  each speed byte is an integer between 0 and 255, however large or negative the value.
\<close>

theorem GoboSpinna_render_frame:
  assumes "0 \<le> address self" and "address self + 3 < int (length buf)"
  defines "a \<equiv> nat (address self)"
  shows "GoboSpinna_render self buf =
           (None, buf[a := fst (render_single (g0 self)), a + 1 := snd (render_single (g0 self)),
                      a + 2 := fst (render_single (g1 self)), a + 3 := snd (render_single (g1 self))])
       \<and> (\<forall>i. i \<notin> {a, a + 1, a + 2, a + 3} \<longrightarrow> snd (GoboSpinna_render self buf) ! i = buf ! i)
       \<and> length (snd (GoboSpinna_render self buf)) = length buf
       \<and> snd (GoboSpinna_render self buf) ! a = (if g0 self \<le> 0 then 0 else 255)
       \<and> snd (GoboSpinna_render self buf) ! (a + 2) = (if g1 self \<le> 0 then 0 else 255)
       \<and> 0 \<le> snd (GoboSpinna_render self buf) ! (a + 1)
       \<and> snd (GoboSpinna_render self buf) ! (a + 1) \<le> 255
       \<and> 0 \<le> snd (GoboSpinna_render self buf) ! (a + 3)
       \<and> snd (GoboSpinna_render self buf) ! (a + 3) \<le> 255"
proof -
  obtain d0 s0 where r0: "render_single (g0 self) = (d0, s0)" by (cases "render_single (g0 self)")
  obtain d1 s1 where r1: "render_single (g1 self) = (d1, s1)" by (cases "render_single (g1 self)")
  have n: "nat (address self + 1) = a + 1" "nat (address self + 2) = a + 2"
    "nat (address self + 3) = a + 3" "a + 3 < length buf"
    using assms(1,2) by (simp_all add: a_def nat_add_distrib)
  have w0: "py_setitem buf (address self) d0 = Inr (buf[a := d0])"
    using assms(1,2) by (simp add: py_setitem_in_range a_def)
  have w1: "py_setitem (buf[a := d0]) (address self + 1) s0 = Inr (buf[a := d0, a + 1 := s0])"
    using assms(1,2) n by (simp add: py_setitem_in_range)
  have w2: "py_setitem (buf[a := d0, a + 1 := s0]) (address self + 2) d1
              = Inr (buf[a := d0, a + 1 := s0, a + 2 := d1])"
    using assms(1,2) n by (simp add: py_setitem_in_range)
  have w3: "py_setitem (buf[a := d0, a + 1 := s0, a + 2 := d1]) (address self + 3) s1
              = Inr (buf[a := d0, a + 1 := s0, a + 2 := d1, a + 3 := s1])"
    using assms(1,2) n by (simp add: py_setitem_in_range)
  have res: "GoboSpinna_render self buf = (None, buf[a := d0, a + 1 := s0, a + 2 := d1, a + 3 := s1])"
    unfolding GoboSpinna_render_def r0 r1 by (simp only: w0 w1 w2 w3 prod.case sum.case)
  have rng0: "d0 = (if g0 self \<le> 0 then 0 else 255)" "0 \<le> s0" "s0 \<le> 255"
    using render_single_range [of "g0 self"] by (simp_all add: r0)
  have rng1: "d1 = (if g1 self \<le> 0 then 0 else 255)" "0 \<le> s1" "s1 \<le> 255"
    using render_single_range [of "g1 self"] by (simp_all add: r1)
  have other: "\<forall>i. i \<notin> {a, a + 1, a + 2, a + 3} \<longrightarrow> snd (GoboSpinna_render self buf) ! i = buf ! i"
    by (simp add: res)
  have vals: "snd (GoboSpinna_render self buf) ! a = d0"
       "snd (GoboSpinna_render self buf) ! (a + 1) = s0"
       "snd (GoboSpinna_render self buf) ! (a + 2) = d1"
       "snd (GoboSpinna_render self buf) ! (a + 3) = s1"
    using n(4) by (simp_all add: res)
  show ?thesis
    using res other vals rng0 rng1 by (simp add: r0 r1)
qed

theorem GoboSpinna_render_frame_witness:
  "0 \<le> address \<lparr>address = 1, g0 = 1 / 2, g1 = - 3\<rparr>
   \<and> address \<lparr>address = 1, g0 = 1 / 2, g1 = - 3\<rparr> + 3 < int (length [9, 9, 9, 9, 9, 9 :: int])
   \<and> GoboSpinna_render \<lparr>address = 1, g0 = 1 / 2, g1 = - 3\<rparr> [9, 9, 9, 9, 9, 9]
       = (None, [9, 255, 127, 0, 255, 9])"
  using GoboSpinna_render_frame [of "\<lparr>address = 1, g0 = 1 / 2, g1 = - 3\<rparr>" "[9, 9, 9, 9, 9, 9]"]
  by (simp add: render_single_def param_gen_clamp_def py_int_def eval_nat_numeral)

text \<open>
  The claim as first stated (C10: for every buffer) fails on a buffer that is too
  short: with two cells at address 0 the first two assignments are made and the third
  raises IndexError.
\<close>

theorem GoboSpinna_render_short_buffer_counterexample:
  "GoboSpinna_render \<lparr>address = 0, g0 = 0, g1 = 0\<rparr> [7, 7] = (Some IndexError, [0, 0])"
  by (simp add: GoboSpinna_render_def render_single_def param_gen_clamp_def py_int_def
      py_setitem_def py_index_def ebind_def)

end
